theory Spec2Isabelle
  imports Complex_Main "HOL-Library.Char_ord" "HOL-Library.List_Lexorder"
begin

section \<open>Data model\<close>

text \<open>
  A cell of a numeric column as pandas holds it: a number, the float NaN that marks a
  missing value, or (in a column of dtype object) a string. Finite float64 values are
  idealised as rationals.
\<close>

datatype cell = Num rat | NaN | Text string

text \<open>
  One row of the stroke table. The columns are those of the input file; the last three are
  the derived columns that \<open>get_age_groups\<close>, \<open>get_bmi_category\<close> and
  \<open>get_glucose_category\<close> add (\<open>None\<close>: no value).
\<close>

record patient =
  id_col :: int
  gender :: string
  age :: "rat option"
  hypertension :: int
  heart_disease :: int
  ever_married :: string
  work_type :: string
  Residence_type :: string
  avg_glucose_level :: cell
  bmi :: cell
  smoking_status :: string
  stroke :: int
  age_group :: "string option"
  bmi_category :: "string option"
  glucose_category :: "string option"

section \<open>Cleaner\<close>

text \<open>
  \<open>pd.to_numeric(col, errors='coerce')\<close>: numbers and NaN stay, a string is parsed and
  becomes NaN when the parser rejects it. The parser of the library is a parameter.
\<close>

fun to_numeric :: "(string \<Rightarrow> rat option) \<Rightarrow> cell \<Rightarrow> cell" where
  "to_numeric parse (Num x) = Num x"
| "to_numeric parse NaN = NaN"
| "to_numeric parse (Text s) = (case parse s of Some x \<Rightarrow> Num x | None \<Rightarrow> NaN)"

text \<open>The numbers of a column, NaN skipped (\<open>skipna=True\<close>).\<close>

fun dropna :: "cell list \<Rightarrow> rat list" where
  "dropna [] = []"
| "dropna (Num x # cs) = x # dropna cs"
| "dropna (c # cs) = dropna cs"

text \<open>The middle of a sorted, non-empty list: the mean of the two middle values when
  the length is even.\<close>

definition middle :: "rat list \<Rightarrow> rat" where
  "middle vs = (let n = length vs in
     if odd n then vs ! (n div 2)
     else (vs ! (n div 2 - 1) + vs ! (n div 2)) / 2)"

text \<open>\<open>Series.median()\<close>: NaN for a column without numbers.\<close>

definition median :: "cell list \<Rightarrow> cell" where
  "median col = (case dropna col of [] \<Rightarrow> NaN | v # vs \<Rightarrow> Num (middle (sort (v # vs))))"

text \<open>\<open>Series.fillna(v)\<close> on one cell.\<close>

fun fillna :: "cell \<Rightarrow> cell \<Rightarrow> cell" where
  "fillna v NaN = v"
| "fillna v c = c"

definition clean_stroke_data :: "(string \<Rightarrow> rat option) \<Rightarrow> patient list \<Rightarrow> patient list" where
  "clean_stroke_data parse df =
     (let df_num = map (\<lambda>r. r\<lparr>bmi := to_numeric parse (bmi r)\<rparr>) df;
          bmi_median = median (map bmi df_num);
          df_filled = map (\<lambda>r. r\<lparr>bmi := fillna bmi_median (bmi r)\<rparr>) df_num
      in filter (\<lambda>r. gender r \<noteq> ''Other'') df_filled)"

text \<open>A parser for unsigned decimal integers, used where a concrete parser is needed:
  it agrees with the library on the strings it accepts and on strings without a digit.\<close>

definition digit_of :: "char \<Rightarrow> nat option" where
  "digit_of c = (let n = of_char c :: nat in if 48 \<le> n \<and> n \<le> 57 then Some (n - 48) else None)"

fun parse_digits :: "nat \<Rightarrow> string \<Rightarrow> nat option" where
  "parse_digits acc [] = Some acc"
| "parse_digits acc (c # cs) =
     (case digit_of c of None \<Rightarrow> None | Some d \<Rightarrow> parse_digits (10 * acc + d) cs)"

definition parse_decimal :: "string \<Rightarrow> rat option" where
  "parse_decimal s = (if s = [] then None else map_option of_nat (parse_digits 0 s))"


section \<open>Categorizer\<close>

definition bins :: "rat list" where
  "bins = [0, 18, 30, 45, 60, 75, 100]"

definition labels :: "string list" where
  "labels = [''0-18'', ''19-30'', ''31-45'', ''46-60'', ''61-75'', ''75+'']"

text \<open>\<open>bins.searchsorted(x, side='left')\<close> on an ascending array: the number of
  edges below \<open>x\<close>.\<close>

definition searchsorted_left :: "rat list \<Rightarrow> rat \<Rightarrow> nat" where
  "searchsorted_left bs x = length (takeWhile (\<lambda>b. b < x) bs)"

text \<open>
  \<open>pd.cut(x, bins, labels, right=True, include_lowest=True)\<close> on one value: the index
  of the interval \<open>(bs[i-1], bs[i]]\<close> holding \<open>x\<close>, the first edge itself counted into
  the first interval; NaN (\<open>None\<close>) for NaN and for a value outside every interval.
\<close>

definition pd_cut :: "rat list \<Rightarrow> string list \<Rightarrow> rat option \<Rightarrow> string option" where
  "pd_cut bs ls a =
     (case a of
        None \<Rightarrow> None
      | Some x \<Rightarrow>
          (let ids = (if x = hd bs then 1 else searchsorted_left bs x)
           in if ids = length bs \<or> ids = 0 then None else Some (ls ! (ids - 1))))"

definition get_age_groups :: "patient list \<Rightarrow> patient list" where
  "get_age_groups df = map (\<lambda>r. r\<lparr>age_group := pd_cut bins labels (age r)\<rparr>) df"

datatype error = TypeError

text \<open>Python's \<open>c < y\<close> for a cell and a number: false for NaN, a TypeError for a
  string.\<close>

fun lt :: "cell \<Rightarrow> rat \<Rightarrow> error + bool" where
  "lt (Num x) y = Inr (x < y)"
| "lt NaN y = Inr False"
| "lt (Text s) y = Inl TypeError"

definition categorize_bmi :: "cell \<Rightarrow> error + string" where
  "categorize_bmi b =
     (case lt b (37 / 2) of
        Inl e \<Rightarrow> Inl e
      | Inr c1 \<Rightarrow>
          if c1 then Inr ''Underweight''
          else (case lt b 25 of
                  Inl e \<Rightarrow> Inl e
                | Inr c2 \<Rightarrow>
                    if c2 then Inr ''Normal''
                    else (case lt b 30 of
                            Inl e \<Rightarrow> Inl e
                          | Inr c3 \<Rightarrow> if c3 then Inr ''Overweight'' else Inr ''Obese'')))"

fun get_bmi_category :: "patient list \<Rightarrow> error + patient list" where
  "get_bmi_category [] = Inr []"
| "get_bmi_category (r # df) =
     (case categorize_bmi (bmi r) of
        Inl e \<Rightarrow> Inl e
      | Inr c \<Rightarrow>
          (case get_bmi_category df of
             Inl e \<Rightarrow> Inl e
           | Inr df' \<Rightarrow> Inr (r\<lparr>bmi_category := Some c\<rparr> # df')))"

definition categorize_glucose :: "cell \<Rightarrow> error + string" where
  "categorize_glucose g =
     (case lt g 100 of
        Inl e \<Rightarrow> Inl e
      | Inr c1 \<Rightarrow>
          if c1 then Inr ''Normal''
          else (case lt g 126 of
                  Inl e \<Rightarrow> Inl e
                | Inr c2 \<Rightarrow> if c2 then Inr ''Pre-diabetic'' else Inr ''Diabetic''))"

fun get_glucose_category :: "patient list \<Rightarrow> error + patient list" where
  "get_glucose_category [] = Inr []"
| "get_glucose_category (r # df) =
     (case categorize_glucose (avg_glucose_level r) of
        Inl e \<Rightarrow> Inl e
      | Inr c \<Rightarrow>
          (case get_glucose_category df of
             Inl e \<Rightarrow> Inl e
           | Inr df' \<Rightarrow> Inr (r\<lparr>glucose_category := Some c\<rparr> # df')))"

section \<open>Aggregator\<close>

text \<open>A float64 result of the rate arithmetic.\<close>

datatype npfloat = Finite rat | NotANumber | PosInf | NegInf

text \<open>True division of numpy integers (the outcome column is of dtype int64): NaN for
  \<open>0/0\<close>, an infinity for \<open>a/0\<close>, and nothing is raised.\<close>

definition np_div :: "int \<Rightarrow> int \<Rightarrow> npfloat" where
  "np_div a b =
     (if b \<noteq> 0 then Finite (of_int a / of_int b)
      else if a = 0 then NotANumber
      else if 0 < a then PosInf else NegInf)"

text \<open>Multiplication by the positive constant 100.\<close>

fun times100 :: "npfloat \<Rightarrow> npfloat" where
  "times100 (Finite x) = Finite (x * 100)"
| "times100 f = f"

text \<open>Rounding to the nearest integer, a tie to the even neighbour (\<open>rint\<close>).\<close>

definition round_half_even :: "rat \<Rightarrow> int" where
  "round_half_even q =
     (let f = \<lfloor>q\<rfloor>; d = q - of_int f
      in if d < 1 / 2 then f
         else if 1 / 2 < d then f + 1
         else if even f then f else f + 1)"

text \<open>\<open>round(x, d)\<close> of numpy and pandas: scale by \<open>10^d\<close>, \<open>rint\<close>, scale
  back.\<close>

fun np_round :: "npfloat \<Rightarrow> nat \<Rightarrow> npfloat" where
  "np_round (Finite x) d = Finite (of_int (round_half_even (x * 10 ^ d)) / 10 ^ d)"
| "np_round f d = f"

text \<open>The dict that \<open>get_stroke_stats\<close> returns.\<close>

record stroke_stats =
  total_patients :: int
  stroke_cases :: int
  no_stroke_cases :: int
  overall_stroke_rate :: npfloat

definition get_stroke_stats :: "patient list \<Rightarrow> stroke_stats" where
  "get_stroke_stats df =
     (let total = int (length df);
          cases = sum_list (map stroke df);
          no_stroke = total - cases
      in \<lparr>total_patients = total, stroke_cases = cases, no_stroke_cases = no_stroke,
          overall_stroke_rate = np_round (times100 (np_div cases total)) 2\<rparr>)"

text \<open>
  A grouping column: its cells (\<open>None\<close> for NaN) and, for a column of categorical dtype
  such as the \<open>age_group\<close> that \<open>pd.cut\<close> makes, the ordered list of its categories.
\<close>

datatype 'k column = Plain "patient \<Rightarrow> 'k option" | Categorical "'k list" "patient \<Rightarrow> 'k option"

text \<open>The key of a row. A categorical column holds its categories and NaN only.\<close>

fun key_of :: "'k column \<Rightarrow> patient \<Rightarrow> 'k option" where
  "key_of (Plain f) r = f r"
| "key_of (Categorical cats f) r =
     (case f r of None \<Rightarrow> None | Some k \<Rightarrow> if k \<in> set cats then Some k else None)"

text \<open>
  The single pass of \<open>groupby(column).agg({'stroke': ['sum', 'count']})\<close>: each row adds
  its outcome to the sum of its group and one to its count; a first occurrence of a key
  opens a group.
\<close>

fun accumulate :: "'k \<Rightarrow> int \<Rightarrow> ('k \<times> int \<times> int) list \<Rightarrow> ('k \<times> int \<times> int) list" where
  "accumulate k v [] = [(k, v, 1)]"
| "accumulate k v ((k', s, c) # acc) =
     (if k = k' then (k', s + v, c + 1) # acc else (k', s, c) # accumulate k v acc)"

text \<open>Rows whose key is NaN belong to no group (\<open>dropna=True\<close>).\<close>

definition groupby_sum_count :: "(patient \<Rightarrow> 'k option) \<Rightarrow> patient list \<Rightarrow> ('k \<times> int \<times> int) list" where
  "groupby_sum_count key df =
     foldl (\<lambda>acc r. case key r of None \<Rightarrow> acc | Some k \<Rightarrow> accumulate k (stroke r) acc) [] df"

definition lookup_group :: "('k \<times> int \<times> int) list \<Rightarrow> 'k \<Rightarrow> int \<times> int" where
  "lookup_group acc k = (case map_of acc k of None \<Rightarrow> (0, 0) | Some sc \<Rightarrow> sc)"

text \<open>
  The groups in the order of the result (\<open>sort=True\<close>): ascending keys for a plain
  column; for a categorical column the categories in their own order, all of them when
  \<open>observed\<close> is false (an empty group sums and counts to 0), those that occur when it
  is true. \<open>observed\<close> is the library's default, which the call leaves unset.
\<close>

fun grouped :: "bool \<Rightarrow> ('k::linorder) column \<Rightarrow> patient list \<Rightarrow> ('k \<times> int \<times> int) list" where
  "grouped observed (Plain f) df = sort_key fst (groupby_sum_count f df)"
| "grouped observed (Categorical cats f) df =
     (let acc = groupby_sum_count (key_of (Categorical cats f)) df
      in map (\<lambda>c. (c, lookup_group acc c))
           (if observed then filter (\<lambda>c. c \<in> set (map fst acc)) cats else cats))"

record 'k stats_row =
  group_key :: 'k
  stroke_count :: int
  total_count :: int
  no_stroke_count :: int
  stroke_rate :: npfloat

definition stats_row_of :: "'k \<times> int \<times> int \<Rightarrow> 'k stats_row" where
  "stats_row_of g =
     (case g of (k, s, c) \<Rightarrow>
        \<lparr>group_key = k, stroke_count = s, total_count = c, no_stroke_count = c - s,
         stroke_rate = np_round (times100 (np_div s c)) 2\<rparr>)"

definition get_stats_by_column :: "bool \<Rightarrow> ('k::linorder) column \<Rightarrow> patient list \<Rightarrow> 'k stats_row list" where
  "get_stats_by_column observed column df = map stats_row_of (grouped observed column df)"

text \<open>The records of the group of a key, in the table's order.\<close>

definition group_rows :: "'k column \<Rightarrow> patient list \<Rightarrow> 'k \<Rightarrow> patient list" where
  "group_rows column df k = filter (\<lambda>r. key_of column r = Some k) df"

text \<open>The categories of a categorical dtype are unique (the library refuses any other
  list).\<close>

fun categories_unique :: "'k column \<Rightarrow> bool" where
  "categories_unique (Plain f) = True"
| "categories_unique (Categorical cats f) = distinct cats"

text \<open>Whether the result lists observed keys only: always for a plain column, under
  \<open>observed=True\<close> for a categorical one.\<close>

fun observed_only :: "bool \<Rightarrow> 'k column \<Rightarrow> bool" where
  "observed_only observed (Plain f) = True"
| "observed_only observed (Categorical cats f) = observed"

text \<open>The outcome column holds 0 and 1 only.\<close>

definition binary_outcome :: "patient list \<Rightarrow> bool" where
  "binary_outcome df = list_all (\<lambda>r. stroke r = 0 \<or> stroke r = 1) df"

section \<open>Example tables\<close>

definition example_patient :: patient where
  "example_patient =
     \<lparr>id_col = 1, gender = ''Male'', age = Some 10, hypertension = 0, heart_disease = 0,
      ever_married = ''No'', work_type = ''Private'', Residence_type = ''Urban'',
      avg_glucose_level = Num 90, bmi = NaN, smoking_status = ''never smoked'', stroke = 0,
      age_group = None, bmi_category = None, glucose_category = None\<rparr>"

text \<open>Five records: ages 10, 25, 50, 70, 90; BMI 17, 22, 28, 33 and the token \<open>N/A\<close>;
  outcomes 0, 1, 0, 1, 0.\<close>

definition scenario_table :: "patient list" where
  "scenario_table =
     [example_patient\<lparr>id_col := 1, age := Some 10, bmi := Num 17, stroke := 0\<rparr>,
      example_patient\<lparr>id_col := 2, age := Some 25, bmi := Num 22, stroke := 1\<rparr>,
      example_patient\<lparr>id_col := 3, age := Some 50, bmi := Num 28, stroke := 0\<rparr>,
      example_patient\<lparr>id_col := 4, age := Some 70, bmi := Text ''33'', stroke := 1\<rparr>,
      example_patient\<lparr>id_col := 5, age := Some 90, bmi := Text ''N/A'', stroke := 0\<rparr>]"


section \<open>Properties of the cleaner\<close>








text \<open>The column-wise steps of the cleaner, read row by row: the median is taken over the
  converted column of the whole input, before the rows are filtered.\<close>

lemma clean_unfold:
  "clean_stroke_data parse df =
     map (\<lambda>r. r\<lparr>bmi := fillna (median (map (\<lambda>r. to_numeric parse (bmi r)) df))
                          (to_numeric parse (bmi r))\<rparr>)
       (filter (\<lambda>r. gender r \<noteq> ''Other'') df)"
  by (simp add: clean_stroke_data_def Let_def filter_map comp_def)






lemmas example_simps =
  example_patient_def scenario_table_def parse_decimal_def digit_of_def




text \<open>
  C7 (amended). The cleaner never fails on a BMI field: a field that the parser rejects,
  the sentinel or any other string, is coerced to missing, and the result is that of the
  table in which the field is missing.
\<close>

theorem clean_coerces_unparsed:
  assumes "bmi r = Text s" and "parse s = None"
  shows "clean_stroke_data parse (pre @ r # post)
       = clean_stroke_data parse (pre @ r\<lparr>bmi := NaN\<rparr> # post)"
  using assms by (simp add: clean_unfold)

theorem clean_coerces_unparsed_witness:
  "bmi (example_patient\<lparr>bmi := Text ''abc''\<rparr>) = Text ''abc'' \<and> parse_decimal ''abc'' = None
   \<and> clean_stroke_data parse_decimal
        [example_patient\<lparr>bmi := Text ''abc''\<rparr>, example_patient\<lparr>bmi := Num 25\<rparr>]
     = clean_stroke_data parse_decimal
        [example_patient\<lparr>bmi := NaN\<rparr>, example_patient\<lparr>bmi := Num 25\<rparr>]"
proof -
  have p: "parse_decimal ''abc'' = None"
    by (simp add: example_simps)
  have b: "bmi (example_patient\<lparr>bmi := Text ''abc''\<rparr>) = Text ''abc''"
    by simp
  from clean_coerces_unparsed
         [of "example_patient\<lparr>bmi := Text ''abc''\<rparr>" "''abc''" parse_decimal
            "[]" "[example_patient\<lparr>bmi := Num 25\<rparr>]", OF b p] p b
  show ?thesis by simp
qed

text \<open>C7 as stated fails: a BMI field that is neither numeric nor the sentinel \<open>N/A\<close> is
  replaced by the median like a missing one, and nothing is raised.\<close>

theorem clean_invalid_bmi_counterexample:
  "parse_decimal ''abc'' = None \<and> ''abc'' \<noteq> ''N/A''
   \<and> map bmi (clean_stroke_data parse_decimal
        [example_patient\<lparr>bmi := Text ''abc''\<rparr>, example_patient\<lparr>bmi := Num 25\<rparr>])
     = [Num 25, Num 25]"
  by (simp add: clean_stroke_data_def median_def middle_def example_simps)

text \<open>
  C8 (amended). The cleaner retains a record if and only if its gender is not the label
  \<open>Other\<close>: with the BMI field set aside, the result is the input without the records of
  gender \<open>Other\<close>, in the input's order, so every other field of a retained record is
  unchanged. On a table whose genders are all \<open>Male\<close>, \<open>Female\<close> or \<open>Other\<close> the
  retained records are those of gender \<open>Male\<close> or \<open>Female\<close>.
\<close>

theorem clean_keeps_not_other:
  "map (\<lambda>r. r\<lparr>bmi := NaN\<rparr>) (clean_stroke_data parse df)
     = map (\<lambda>r. r\<lparr>bmi := NaN\<rparr>) (filter (\<lambda>r. gender r \<noteq> ''Other'') df)
   \<and> ((\<forall>r\<in>set df. gender r = ''Male'' \<or> gender r = ''Female'' \<or> gender r = ''Other'') \<longrightarrow>
        map (\<lambda>r. r\<lparr>bmi := NaN\<rparr>) (clean_stroke_data parse df)
          = map (\<lambda>r. r\<lparr>bmi := NaN\<rparr>)
              (filter (\<lambda>r. gender r = ''Male'' \<or> gender r = ''Female'') df))"
proof -
  have g: "map (\<lambda>r. r\<lparr>bmi := NaN\<rparr>) (clean_stroke_data parse df)
     = map (\<lambda>r. r\<lparr>bmi := NaN\<rparr>) (filter (\<lambda>r. gender r \<noteq> ''Other'') df)"
    by (simp add: clean_unfold comp_def)
  have "filter (\<lambda>r. gender r \<noteq> ''Other'') df
      = filter (\<lambda>r. gender r = ''Male'' \<or> gender r = ''Female'') df"
    if "\<forall>r\<in>set df. gender r = ''Male'' \<or> gender r = ''Female'' \<or> gender r = ''Other''"
    using that by (intro filter_cong) auto
  with g show ?thesis by simp
qed

theorem clean_keeps_not_other_witness:
  "map id_col (clean_stroke_data parse_decimal
      [example_patient\<lparr>id_col := 7, gender := ''Female''\<rparr>,
       example_patient\<lparr>id_col := 8, gender := ''Other''\<rparr>,
       example_patient\<lparr>id_col := 9, gender := ''Male''\<rparr>]) = [7, 9]"
proof -
  let ?df = "[example_patient\<lparr>id_col := 7, gender := ''Female''\<rparr>,
       example_patient\<lparr>id_col := 8, gender := ''Other''\<rparr>,
       example_patient\<lparr>id_col := 9, gender := ''Male''\<rparr>]"
  have "map id_col (map (\<lambda>r. r\<lparr>bmi := NaN\<rparr>) (clean_stroke_data parse_decimal ?df)) = [7, 9]"
    using clean_keeps_not_other [of parse_decimal ?df]
    by (simp add: example_simps)
  then show ?thesis by (simp add: comp_def)
qed

text \<open>C8 as stated fails: a record whose gender is neither of the two majority labels nor
  \<open>Other\<close> is retained.\<close>

theorem clean_unknown_gender_counterexample:
  "''Unknown'' \<noteq> ''Male'' \<and> ''Unknown'' \<noteq> ''Female''
   \<and> map gender (clean_stroke_data parse_decimal
        [example_patient\<lparr>gender := ''Unknown'', bmi := Num 25\<rparr>]) = [''Unknown'']"
  by (simp add: clean_stroke_data_def median_def middle_def example_simps)



section \<open>Properties of the categorizer\<close>

lemma pd_cut_bins:
  assumes "0 \<le> x" and "x \<le> 100"
  shows "pd_cut bins labels (Some x) =
           Some (if x \<le> 18 then ''0-18'' else if x \<le> 30 then ''19-30''
                 else if x \<le> 45 then ''31-45'' else if x \<le> 60 then ''46-60''
                 else if x \<le> 75 then ''61-75'' else ''75+'')"
  using assms by (auto simp: pd_cut_def bins_def labels_def searchsorted_left_def)

lemma pd_cut_outside: "x < 0 \<or> 100 < x \<Longrightarrow> pd_cut bins labels (Some x) = None"
  by (auto simp: pd_cut_def bins_def labels_def searchsorted_left_def)

lemma age_group_get_age_groups:
  "map age_group (get_age_groups df) = map (\<lambda>r. pd_cut bins labels (age r)) df"
  by (simp add: get_age_groups_def comp_def)

lemma pd_cut_examples:
  "pd_cut bins labels (Some 18) = Some ''0-18''
   \<and> pd_cut bins labels (Some (180001 / 10000)) = Some ''19-30''
   \<and> pd_cut bins labels (Some 100) = Some ''75+''"
  by (simp add: pd_cut_def bins_def labels_def searchsorted_left_def)

text \<open>
  C2 (amended). For every record whose age lies in the closed range from 0 to 100, the age
  annotation assigns exactly one of the six labels; the label is a function of the age
  alone, with the intervals [0,18], (18,30], (30,45], (45,60], (60,75], (75,100]; age 18
  maps to 0-18, age 18.0001 to 19-30 and age 100 to 75+. (An age outside the range gets
  no label.)
\<close>

theorem age_group_in_range:
  assumes "0 \<le> x" and "x \<le> 100"
  shows "pd_cut bins labels (Some x) =
           Some (if x \<le> 18 then ''0-18'' else if x \<le> 30 then ''19-30''
                 else if x \<le> 45 then ''31-45'' else if x \<le> 60 then ''46-60''
                 else if x \<le> 75 then ''61-75'' else ''75+'')
         \<and> pd_cut bins labels (Some x) \<in> Some ` set labels
         \<and> map age_group (get_age_groups df) = map (\<lambda>r. pd_cut bins labels (age r)) df
         \<and> pd_cut bins labels (Some 18) = Some ''0-18''
         \<and> pd_cut bins labels (Some (180001 / 10000)) = Some ''19-30''
         \<and> pd_cut bins labels (Some 100) = Some ''75+''
         \<and> (\<forall>y. y < 0 \<or> 100 < y \<longrightarrow> pd_cut bins labels (Some y) = None)"
proof -
  have "pd_cut bins labels (Some x) \<in> Some ` set labels"
    unfolding pd_cut_bins [OF assms] by (simp add: labels_def)
  then show ?thesis
    using pd_cut_bins [OF assms] age_group_get_age_groups [of df] pd_cut_examples
      pd_cut_outside
    by blast
qed

theorem age_group_in_range_witness:
  "(0::rat) \<le> 25 \<and> (25::rat) \<le> 100
   \<and> map age_group (get_age_groups scenario_table)
       = [Some ''0-18'', Some ''19-30'', Some ''46-60'', Some ''61-75'', Some ''75+'']
   \<and> pd_cut bins labels (Some 25) = Some ''19-30''"
proof -
  have a: "(0::rat) \<le> 25" and b: "(25::rat) \<le> 100" by simp_all
  have "map (\<lambda>r. pd_cut bins labels (age r)) scenario_table
      = [Some ''0-18'', Some ''19-30'', Some ''46-60'', Some ''61-75'', Some ''75+'']"
    by (simp add: pd_cut_def bins_def labels_def searchsorted_left_def example_simps)
  with age_group_in_range [OF a b, of scenario_table] show ?thesis
    by simp
qed

text \<open>C2 as stated fails: a record with the defined age 101 gets none of the six
  labels.\<close>

theorem age_above_bins_counterexample:
  "pd_cut bins labels (Some 101) = None
   \<and> map age_group (get_age_groups [example_patient\<lparr>age := Some 101\<rparr>]) = [None]"
  by (simp add: get_age_groups_def pd_cut_def bins_def labels_def searchsorted_left_def)

lemma categorize_bmi_NaN: "categorize_bmi NaN = Inr ''Obese''"
  by (simp add: categorize_bmi_def)

lemma categorize_bmi_ok: "\<forall>s. b \<noteq> Text s \<Longrightarrow> \<exists>c. categorize_bmi b = Inr c"
  by (cases b) (auto simp: categorize_bmi_def)

lemma get_bmi_category_ok:
  assumes "\<forall>r\<in>set df. \<forall>s. bmi r \<noteq> Text s"
  shows "\<exists>df'. get_bmi_category df = Inr df' \<and> length df' = length df
          \<and> (\<forall>i<length df. bmi (df ! i) = NaN \<longrightarrow> bmi_category (df' ! i) = Some ''Obese'')"
  using assms
proof (induction df)
  case Nil
  then show ?case by simp
next
  case (Cons r df)
  then obtain df' where d: "get_bmi_category df = Inr df'" "length df' = length df"
     "\<forall>i<length df. bmi (df ! i) = NaN \<longrightarrow> bmi_category (df' ! i) = Some ''Obese''"
    by auto
  from Cons.prems obtain c where c: "categorize_bmi (bmi r) = Inr c"
    using categorize_bmi_ok [of "bmi r"] by auto
  have n: "bmi r = NaN \<Longrightarrow> c = ''Obese''"
    using c by (simp add: categorize_bmi_NaN)
  have "\<forall>i<length (r # df). bmi ((r # df) ! i) = NaN \<longrightarrow>
          bmi_category ((r\<lparr>bmi_category := Some c\<rparr> # df') ! i) = Some ''Obese''"
  proof (intro allI impI)
    fix i assume "i < length (r # df)" "bmi ((r # df) ! i) = NaN"
    then show "bmi_category ((r\<lparr>bmi_category := Some c\<rparr> # df') ! i) = Some ''Obese''"
      using d(3) n by (cases i) auto
  qed
  then show ?case using c d by simp
qed

text \<open>
  C10. The BMI categorizer labels a missing BMI (NaN) \<open>Obese\<close>: every comparison with
  NaN is false, so the last branch is taken. Applied to a table that has not been cleaned
  (its BMI column numbers and NaN), the annotation returns a table of the same length in
  which every record with a missing BMI carries the label \<open>Obese\<close>.
\<close>

theorem missing_bmi_is_obese:
  "categorize_bmi NaN = Inr ''Obese''
   \<and> ((\<forall>r\<in>set df. \<forall>s. bmi r \<noteq> Text s) \<longrightarrow>
        (\<exists>df'. get_bmi_category df = Inr df' \<and> length df' = length df
           \<and> (\<forall>i<length df. bmi (df ! i) = NaN \<longrightarrow> bmi_category (df' ! i) = Some ''Obese'')))"
  using categorize_bmi_NaN get_bmi_category_ok [of df] by blast

theorem missing_bmi_is_obese_witness:
  "map bmi [example_patient, example_patient\<lparr>bmi := Num 20\<rparr>] = [NaN, Num 20]
   \<and> (\<exists>df'. get_bmi_category [example_patient, example_patient\<lparr>bmi := Num 20\<rparr>] = Inr df'
          \<and> map bmi_category df' = [Some ''Obese'', Some ''Normal''])"
proof -
  let ?df = "[example_patient, example_patient\<lparr>bmi := Num 20\<rparr>]"
  have h: "\<forall>r\<in>set ?df. \<forall>s. bmi r \<noteq> Text s"
    by (simp add: example_patient_def)
  with missing_bmi_is_obese [of ?df] obtain df' where "get_bmi_category ?df = Inr df'"
    by blast
  then show ?thesis
    by (auto simp: example_patient_def categorize_bmi_def)
qed

section \<open>Properties of the aggregator\<close>

lemma accumulate_keys:
  "map fst (accumulate k v acc) = (if k \<in> set (map fst acc) then map fst acc else map fst acc @ [k])"
  by (induction k v acc rule: accumulate.induct) simp_all

lemma accumulate_keys_set: "set (map fst (accumulate k v acc)) = insert k (set (map fst acc))"
  unfolding accumulate_keys by auto

lemma accumulate_keys_distinct:
  "distinct (map fst acc) \<Longrightarrow> distinct (map fst (accumulate k v acc))"
  unfolding accumulate_keys by auto

lemma accumulate_map_of:
  "map_of (accumulate k v acc) k' =
     (if k' = k then Some (case map_of acc k of None \<Rightarrow> (v, 1) | Some (s, c) \<Rightarrow> (s + v, c + 1))
      else map_of acc k')"
  by (induction acc) auto

lemma groupby_snoc:
  "groupby_sum_count key (df @ [r]) =
     (case key r of None \<Rightarrow> groupby_sum_count key df
      | Some k \<Rightarrow> accumulate k (stroke r) (groupby_sum_count key df))"
  unfolding groupby_sum_count_def by simp

lemma groupby_Nil: "groupby_sum_count key [] = []"
  by (simp add: groupby_sum_count_def)

lemma groupby_keys_distinct: "distinct (map fst (groupby_sum_count key df))"
  by (induction df rule: rev_induct)
     (auto simp: groupby_Nil groupby_snoc intro: accumulate_keys_distinct split: option.splits)

lemma groupby_keys_set:
  "set (map fst (groupby_sum_count key df)) = {k. \<exists>r\<in>set df. key r = Some k}"
proof (induction df rule: rev_induct)
  case Nil
  then show ?case by (simp add: groupby_Nil)
next
  case (snoc r df)
  show ?case
  proof (cases "key r")
    case None
    with snoc show ?thesis by (auto simp: groupby_snoc)
  next
    case (Some k)
    with snoc show ?thesis
      unfolding groupby_snoc by (auto simp: accumulate_keys_set simp del: set_map)
  qed
qed

lemma groupby_map_of:
  "map_of (groupby_sum_count key df) k =
     (if \<exists>r\<in>set df. key r = Some k
      then Some (sum_list (map stroke (filter (\<lambda>r. key r = Some k) df)),
                 int (length (filter (\<lambda>r. key r = Some k) df)))
      else None)"
proof (induction df rule: rev_induct)
  case Nil
  then show ?case by (simp add: groupby_Nil)
next
  case (snoc r df)
  show ?case
  proof (cases "key r")
    case None
    then show ?thesis using snoc by (auto simp: groupby_snoc)
  next
    case (Some k')
    show ?thesis
    proof (cases "k = k'")
      case True
      then show ?thesis using snoc Some
        by (auto simp: groupby_snoc accumulate_map_of filter_empty_conv)
    next
      case False
      then show ?thesis using snoc Some
        by (auto simp: groupby_snoc accumulate_map_of)
    qed
  qed
qed

lemma lookup_group_groupby:
  "lookup_group (groupby_sum_count key df) k =
     (sum_list (map stroke (filter (\<lambda>r. key r = Some k) df)),
      int (length (filter (\<lambda>r. key r = Some k) df)))"
proof (cases "\<exists>r\<in>set df. key r = Some k")
  case True
  then show ?thesis by (simp add: lookup_group_def groupby_map_of)
next
  case False
  then have "filter (\<lambda>r. key r = Some k) df = []"
    by (auto simp: filter_empty_conv)
  with False show ?thesis by (simp add: lookup_group_def groupby_map_of)
qed

lemma groupby_entries:
  assumes "x \<in> set (groupby_sum_count key df)"
  shows "x = (fst x, lookup_group (groupby_sum_count key df) (fst x))"
proof -
  obtain k sc where x: "x = (k, sc)" by (cases x)
  with assms have "map_of (groupby_sum_count key df) k = Some sc"
    using groupby_keys_distinct [of key df] by simp
  then show ?thesis by (simp add: x lookup_group_def)
qed

lemma lookup_group_rows:
  "lookup_group (groupby_sum_count (key_of col) df) k =
     (sum_list (map stroke (group_rows col df k)), int (length (group_rows col df k)))"
  by (simp add: lookup_group_groupby group_rows_def)

lemma key_of_Plain: "key_of (Plain f) = f"
  by (rule ext) simp

lemma map_insort_key: "map f (insort_key f x xs) = insort (f x) (map f xs)"
  by (induction xs) simp_all

lemma map_sort_key: "map f (sort_key f xs) = sort (map f xs)"
  by (induction xs) (simp_all add: map_insort_key)

lemma grouped_char:
  "grouped observed col df =
     map (\<lambda>k. (k, sum_list (map stroke (group_rows col df k)), int (length (group_rows col df k))))
       (map fst (grouped observed col df))"
proof (cases col)
  case (Plain f)
  let ?acc = "groupby_sum_count f df"
  have "map (\<lambda>x. (fst x, lookup_group ?acc (fst x))) (sort_key fst ?acc) = sort_key fst ?acc"
    by (intro map_idI) (simp add: groupby_entries [symmetric])
  then have "sort_key fst ?acc = map (\<lambda>k. (k, lookup_group ?acc k)) (map fst (sort_key fst ?acc))"
    by (simp add: comp_def)
  then show ?thesis
    using lookup_group_rows [of "Plain f" df] by (simp add: Plain key_of_Plain)
next
  case (Categorical cats f)
  then show ?thesis
    using lookup_group_rows [of "Categorical cats f" df]
    by (simp add: Let_def comp_def)
qed

lemma grouped_keys_distinct:
  "categories_unique col \<Longrightarrow> distinct (map fst (grouped observed col df))"
proof (cases col)
  case (Plain f)
  then show ?thesis
    by (simp add: map_sort_key groupby_keys_distinct)
next
  case (Categorical cats f)
  assume "categories_unique col"
  with Categorical show ?thesis
    by (simp add: Let_def comp_def)
qed

lemma grouped_keys_cover:
  assumes "r \<in> set df" and "key_of col r = Some k"
  shows "k \<in> set (map fst (grouped observed col df))"
proof (cases col)
  case (Plain f)
  have "k \<in> set (map fst (groupby_sum_count f df))"
    unfolding groupby_keys_set using assms Plain by auto
  then show ?thesis
    by (simp add: Plain map_sort_key)
next
  case (Categorical cats f)
  have c: "k \<in> set cats"
    using assms(2) Categorical by (auto split: option.splits if_splits)
  have "k \<in> set (map fst (groupby_sum_count (key_of (Categorical cats f)) df))"
    unfolding groupby_keys_set using assms Categorical by auto
  with c show ?thesis
    by (simp add: Categorical Let_def comp_def)
qed

lemma grouped_keys_observed:
  assumes "observed_only observed col" and "k \<in> set (map fst (grouped observed col df))"
  shows "\<exists>r\<in>set df. key_of col r = Some k"
proof (cases col)
  case (Plain f)
  with assms(2) have "k \<in> set (map fst (groupby_sum_count f df))"
    by (simp add: map_sort_key)
  then show ?thesis
    unfolding groupby_keys_set by (simp add: Plain)
next
  case (Categorical cats f)
  with assms have "k \<in> set (map fst (groupby_sum_count (key_of (Categorical cats f)) df))"
    by (simp add: Let_def comp_def)
  then show ?thesis
    unfolding groupby_keys_set by (simp add: Categorical)
qed

lemma sum_filter_disj:
  fixes g :: "'a \<Rightarrow> int"
  assumes "\<And>x. \<not> (P x \<and> Q x)"
  shows "sum_list (map g (filter (\<lambda>x. P x \<or> Q x) xs))
       = sum_list (map g (filter P xs)) + sum_list (map g (filter Q xs))"
  using assms by (induction xs) auto

lemma sum_over_keys:
  fixes g :: "patient \<Rightarrow> int"
  assumes "distinct ks"
  shows "(\<Sum>k\<leftarrow>ks. sum_list (map g (filter (\<lambda>r. key r = Some k) df)))
       = sum_list (map g (filter (\<lambda>r. key r \<in> Some ` set ks) df))"
  using assms
proof (induction ks)
  case Nil
  then show ?case by simp
next
  case (Cons k ks)
  have "filter (\<lambda>r. key r \<in> Some ` set (k # ks)) df
      = filter (\<lambda>r. key r = Some k \<or> key r \<in> Some ` set ks) df"
    by (intro filter_cong) auto
  moreover have "\<not> (key r = Some k \<and> key r \<in> Some ` set ks)" for r
    using Cons.prems by auto
  ultimately show ?case
    using Cons by (simp add: sum_filter_disj)
qed

lemma length_as_sum: "int (length xs) = sum_list (map (\<lambda>_. 1) xs)"
  by (induction xs) simp_all

lemma keyed_rows:
  "filter (\<lambda>r. key_of col r \<in> Some ` set (map fst (grouped observed col df))) df
     = filter (\<lambda>r. key_of col r \<noteq> None) df"
proof (intro filter_cong refl)
  fix r assume "r \<in> set df"
  then show "(key_of col r \<in> Some ` set (map fst (grouped observed col df))) = (key_of col r \<noteq> None)"
    using grouped_keys_cover [of r df col _ observed] by (cases "key_of col r") auto
qed

lemma sum_rows_general:
  fixes g :: "patient \<Rightarrow> int"
  assumes "categories_unique col"
  shows "(\<Sum>k\<leftarrow>map fst (grouped observed col df). sum_list (map g (group_rows col df k)))
       = sum_list (map g (filter (\<lambda>r. key_of col r \<noteq> None) df))"
  unfolding group_rows_def sum_over_keys [OF grouped_keys_distinct [OF assms]] keyed_rows ..

lemma binary_sum:
  "binary_outcome df \<Longrightarrow> sum_list (map stroke df) = int (length (filter (\<lambda>r. stroke r = 1) df))"
  by (induction df) (auto simp: binary_outcome_def)


lemma stats_rows_char:
  "get_stats_by_column observed col df =
     map (\<lambda>k. stats_row_of (k, sum_list (map stroke (group_rows col df k)),
                               int (length (group_rows col df k))))
       (map fst (grouped observed col df))"
  unfolding get_stats_by_column_def
  by (subst grouped_char) (simp add: comp_def)

lemma stats_row_obtain:
  assumes "row \<in> set (get_stats_by_column observed col df)"
  obtains k where "k \<in> set (map fst (grouped observed col df))"
    and "row = stats_row_of (k, sum_list (map stroke (group_rows col df k)),
                                int (length (group_rows col df k)))"
  using assms unfolding stats_rows_char by auto

lemma stats_row_of_simps:
  "group_key (stats_row_of (k, s, c)) = k"
  "stroke_count (stats_row_of (k, s, c)) = s"
  "total_count (stats_row_of (k, s, c)) = c"
  "no_stroke_count (stats_row_of (k, s, c)) = c - s"
  "stroke_rate (stats_row_of (k, s, c)) = np_round (times100 (np_div s c)) 2"
  by (simp_all add: stats_row_of_def)

lemma rate_finite:
  "c \<noteq> 0 \<Longrightarrow> np_round (times100 (np_div s c)) 2
     = Finite (of_int (round_half_even (of_int s / of_int c * 100 * 100)) / 100)"
  by (simp add: np_div_def)


lemma rate_0_of_0: "np_round (times100 (np_div 0 0)) 2 = NotANumber"
  by (simp add: np_div_def)


text \<open>
  C5 (amended). A row of the aggregation has total count 0 exactly when no record carries
  its key. For a plain grouping column, and for a categorical one under observed=True,
  every row has a total count of at least 1 and a finite rate. A categorical column under
  observed=False lists its unobserved categories too: such a row has total count 0, and
  its rate is NaN; nothing fails.
\<close>

theorem zero_count_rows:
  assumes "row \<in> set (get_stats_by_column observed column df)"
  shows "(total_count row = 0 \<longleftrightarrow> group_rows column df (group_key row) = [])
       \<and> (total_count row \<noteq> 0 \<longrightarrow> (\<exists>q. stroke_rate row = Finite q))
       \<and> (total_count row = 0 \<longrightarrow> stroke_rate row = NotANumber)
       \<and> (observed_only observed column \<longrightarrow> 1 \<le> total_count row)"
proof -
  from assms obtain k where k: "k \<in> set (map fst (grouped observed column df))" and
    row: "row = stats_row_of (k, sum_list (map stroke (group_rows column df k)),
                                int (length (group_rows column df k)))"
    by (rule stats_row_obtain)
  have o: "group_rows column df k \<noteq> []" if "observed_only observed column"
    using grouped_keys_observed [OF that k]
    by (auto simp: group_rows_def filter_empty_conv)
  let ?g = "group_rows column df k"
  let ?s = "sum_list (map stroke ?g)"
  have z: "(int (length ?g) = 0) = (?g = [])" by simp
  have f: "\<exists>q. np_round (times100 (np_div ?s (int (length ?g)))) 2 = Finite q"
    if "int (length ?g) \<noteq> 0"
    using rate_finite [OF that] by blast
  have e: "np_round (times100 (np_div ?s (int (length ?g)))) 2 = NotANumber"
    if "int (length ?g) = 0"
    using that rate_0_of_0 by simp
  have n: "1 \<le> int (length ?g)" if "observed_only observed column"
    using o [OF that] by (cases ?g) auto
  show ?thesis
    unfolding row stats_row_of_simps
    using z f e n by blast
qed

lemma sum_total_count:
  "sum_list (map total_count (get_stats_by_column observed col df))
     = (\<Sum>k\<leftarrow>map fst (grouped observed col df). sum_list (map (\<lambda>_. 1) (group_rows col df k)))"
  unfolding stats_rows_char by (simp add: comp_def stats_row_of_simps length_as_sum)

lemma sum_stroke_count:
  "sum_list (map stroke_count (get_stats_by_column observed col df))
     = (\<Sum>k\<leftarrow>map fst (grouped observed col df). sum_list (map stroke (group_rows col df k)))"
  unfolding stats_rows_char by (simp add: comp_def stats_row_of_simps)

text \<open>
  C4 (amended). The per-group total counts sum to the number of records whose key is not
  missing, and the per-group positive counts to the sum of their outcomes. For a table in
  which no key of the grouping column is missing, the total counts sum to the number of
  records and the positive counts to the number of outcome-positive records of the table
  (the outcome column being binary).
\<close>

theorem counts_conserved:
  assumes "categories_unique column"
  shows "sum_list (map total_count (get_stats_by_column observed column df))
           = int (length (filter (\<lambda>r. key_of column r \<noteq> None) df))
       \<and> sum_list (map stroke_count (get_stats_by_column observed column df))
           = sum_list (map stroke (filter (\<lambda>r. key_of column r \<noteq> None) df))
       \<and> ((\<forall>r\<in>set df. key_of column r \<noteq> None) \<longrightarrow>
            sum_list (map total_count (get_stats_by_column observed column df)) = int (length df)
          \<and> sum_list (map stroke_count (get_stats_by_column observed column df))
              = sum_list (map stroke df)
          \<and> (binary_outcome df \<longrightarrow>
               sum_list (map stroke_count (get_stats_by_column observed column df))
                 = int (length (filter (\<lambda>r. stroke r = 1) df))))"
proof -
  have t: "sum_list (map total_count (get_stats_by_column observed column df))
           = int (length (filter (\<lambda>r. key_of column r \<noteq> None) df))"
    unfolding sum_total_count sum_rows_general [OF assms] by (simp add: length_as_sum)
  have s: "sum_list (map stroke_count (get_stats_by_column observed column df))
           = sum_list (map stroke (filter (\<lambda>r. key_of column r \<noteq> None) df))"
    unfolding sum_stroke_count sum_rows_general [OF assms] ..
  have f: "filter (\<lambda>r. key_of column r \<noteq> None) df = df"
    if "\<forall>r\<in>set df. key_of column r \<noteq> None"
    using that by (simp add: filter_id_conv)
  show ?thesis
    using t s f binary_sum [of df] by auto
qed

lemma groupby_const:
  assumes "df \<noteq> []" and "\<forall>r\<in>set df. key r = Some c"
  shows "groupby_sum_count key df = [(c, sum_list (map stroke df), int (length df))]"
  using assms
proof (induction df rule: rev_nonempty_induct)
  case (single r)
  then show ?case by (simp add: groupby_sum_count_def)
next
  case (snoc r df)
  then show ?case by (simp add: groupby_snoc)
qed

lemma grouped_const:
  assumes "df \<noteq> []"
  shows "grouped observed (Plain (\<lambda>_. Some c)) df = [(c, sum_list (map stroke df), int (length df))]"
    and "grouped observed (Categorical [c] (\<lambda>_. Some c)) df
           = [(c, sum_list (map stroke df), int (length df))]"
proof -
  have "groupby_sum_count (\<lambda>_. Some c) df = [(c, sum_list (map stroke df), int (length df))]"
    using assms by (intro groupby_const) auto
  then show "grouped observed (Plain (\<lambda>_. Some c)) df
      = [(c, sum_list (map stroke df), int (length df))]"
    by simp
  have "groupby_sum_count (key_of (Categorical [c] (\<lambda>_. Some c))) df
      = [(c, sum_list (map stroke df), int (length df))]"
    using assms by (intro groupby_const) auto
  then show "grouped observed (Categorical [c] (\<lambda>_. Some c)) df
           = [(c, sum_list (map stroke df), int (length df))]"
    by (simp add: Let_def lookup_group_def del: key_of.simps)
qed

text \<open>
  C6 (amended). For every non-empty table, the aggregation by a constant key yields
  exactly one row, and its total count, positive count, negative count and rate are those
  of the whole-table summary.
\<close>

theorem constant_key_is_summary:
  assumes "df \<noteq> []"
  shows "get_stats_by_column observed (Plain (\<lambda>_. Some c)) df =
           [\<lparr>group_key = c,
             stroke_count = stroke_cases (get_stroke_stats df),
             total_count = total_patients (get_stroke_stats df),
             no_stroke_count = no_stroke_cases (get_stroke_stats df),
             stroke_rate = overall_stroke_rate (get_stroke_stats df)\<rparr>]
       \<and> get_stats_by_column observed (Categorical [c] (\<lambda>_. Some c)) df =
           get_stats_by_column observed (Plain (\<lambda>_. Some c)) df"
  unfolding get_stats_by_column_def grouped_const [OF assms]
  by (simp add: stats_row_of_def get_stroke_stats_def Let_def del: np_round.simps times100.simps)

lemmas agg_simps =
  get_stats_by_column_def stats_row_of_def groupby_sum_count_def lookup_group_def
  np_div_def round_half_even_def get_age_groups_def pd_cut_def bins_def labels_def
  searchsorted_left_def


theorem zero_count_rows_witness:
  "get_stats_by_column True (Categorical labels age_group) (get_age_groups scenario_table)
     = [\<lparr>group_key = ''0-18'', stroke_count = 0, total_count = 1, no_stroke_count = 1,
         stroke_rate = Finite 0\<rparr>,
        \<lparr>group_key = ''19-30'', stroke_count = 1, total_count = 1, no_stroke_count = 0,
         stroke_rate = Finite 100\<rparr>,
        \<lparr>group_key = ''46-60'', stroke_count = 0, total_count = 1, no_stroke_count = 1,
         stroke_rate = Finite 0\<rparr>,
        \<lparr>group_key = ''61-75'', stroke_count = 1, total_count = 1, no_stroke_count = 0,
         stroke_rate = Finite 100\<rparr>,
        \<lparr>group_key = ''75+'', stroke_count = 0, total_count = 1, no_stroke_count = 1,
         stroke_rate = Finite 0\<rparr>]"
proof -
  let ?rows = "get_stats_by_column True (Categorical labels age_group)
                 (get_age_groups scenario_table)"
  have rows: "?rows
     = [\<lparr>group_key = ''0-18'', stroke_count = 0, total_count = 1, no_stroke_count = 1,
         stroke_rate = Finite 0\<rparr>,
        \<lparr>group_key = ''19-30'', stroke_count = 1, total_count = 1, no_stroke_count = 0,
         stroke_rate = Finite 100\<rparr>,
        \<lparr>group_key = ''46-60'', stroke_count = 0, total_count = 1, no_stroke_count = 1,
         stroke_rate = Finite 0\<rparr>,
        \<lparr>group_key = ''61-75'', stroke_count = 1, total_count = 1, no_stroke_count = 0,
         stroke_rate = Finite 100\<rparr>,
        \<lparr>group_key = ''75+'', stroke_count = 0, total_count = 1, no_stroke_count = 1,
         stroke_rate = Finite 0\<rparr>]"
    by (simp add: agg_simps example_simps)
  then have "hd ?rows \<in> set ?rows"
    by simp
  from zero_count_rows [OF this] rows show ?thesis
    by simp
qed

text \<open>C5 as stated fails for the categorical column \<open>age_group\<close> under observed=False:
  the five categories without a record are listed with total count 0, and their rate is
  NaN; nothing is raised. The rate of a group with total count 0 is NaN in any case.\<close>

theorem zero_count_counterexample:
  "get_stats_by_column False (Categorical labels age_group) (get_age_groups [example_patient])
     = [\<lparr>group_key = ''0-18'', stroke_count = 0, total_count = 1, no_stroke_count = 1,
         stroke_rate = Finite 0\<rparr>,
        \<lparr>group_key = ''19-30'', stroke_count = 0, total_count = 0, no_stroke_count = 0,
         stroke_rate = NotANumber\<rparr>,
        \<lparr>group_key = ''31-45'', stroke_count = 0, total_count = 0, no_stroke_count = 0,
         stroke_rate = NotANumber\<rparr>,
        \<lparr>group_key = ''46-60'', stroke_count = 0, total_count = 0, no_stroke_count = 0,
         stroke_rate = NotANumber\<rparr>,
        \<lparr>group_key = ''61-75'', stroke_count = 0, total_count = 0, no_stroke_count = 0,
         stroke_rate = NotANumber\<rparr>,
        \<lparr>group_key = ''75+'', stroke_count = 0, total_count = 0, no_stroke_count = 0,
         stroke_rate = NotANumber\<rparr>]
   \<and> stroke_rate (stats_row_of (''19-30'', 0, 0)) = NotANumber"
  by (simp add: agg_simps example_simps)

theorem counts_conserved_witness:
  "categories_unique (Categorical labels age_group)
   \<and> sum_list (map total_count (get_stats_by_column False (Categorical labels age_group)
        (get_age_groups scenario_table))) = 5
   \<and> sum_list (map stroke_count (get_stats_by_column False (Categorical labels age_group)
        (get_age_groups scenario_table))) = 2"
proof -
  have u: "categories_unique (Categorical labels age_group)"
    by (simp add: labels_def)
  from counts_conserved [OF u, of False "get_age_groups scenario_table"] u show ?thesis
    by (simp add: get_age_groups_def pd_cut_def bins_def labels_def searchsorted_left_def
          example_simps)
qed

text \<open>C4 as stated fails: a record of age 120 has no age group, belongs to no group, and
  the total counts sum to 0 for a table of one record.\<close>

theorem missing_key_counterexample:
  "length (get_age_groups [example_patient\<lparr>age := Some 120\<rparr>]) = 1
   \<and> sum_list (map total_count (get_stats_by_column True (Categorical labels age_group)
        (get_age_groups [example_patient\<lparr>age := Some 120\<rparr>]))) = 0
   \<and> sum_list (map total_count (get_stats_by_column False (Categorical labels age_group)
        (get_age_groups [example_patient\<lparr>age := Some 120\<rparr>]))) = 0"
  by (simp add: agg_simps example_simps)

theorem constant_key_is_summary_witness:
  "scenario_table \<noteq> []
   \<and> get_stats_by_column True (Plain (\<lambda>_. Some (0::int))) scenario_table
     = [\<lparr>group_key = 0, stroke_count = 2, total_count = 5, no_stroke_count = 3,
         stroke_rate = Finite 40\<rparr>]
   \<and> overall_stroke_rate (get_stroke_stats scenario_table) = Finite 40"
proof -
  have n: "scenario_table \<noteq> []" by (simp add: scenario_table_def)
  have "get_stroke_stats scenario_table
      = \<lparr>total_patients = 5, stroke_cases = 2, no_stroke_cases = 3,
         overall_stroke_rate = Finite 40\<rparr>"
    by (simp add: get_stroke_stats_def agg_simps example_simps)
  with constant_key_is_summary [OF n, of True "0::int"] n show ?thesis
    by simp
qed

text \<open>C6 as stated fails on the empty table: the aggregation by a constant key yields no
  row at all, while the summary still reports its 0 patients.\<close>

theorem empty_table_counterexample:
  "get_stats_by_column True (Plain (\<lambda>_. Some (0::int))) [] = []
   \<and> get_stats_by_column False (Plain (\<lambda>_. Some (0::int))) [] = []
   \<and> total_patients (get_stroke_stats []) = 0"
  by (simp add: agg_simps get_stroke_stats_def)

end
